theory Spec2Isabelle
  imports Complex_Main "HOL-Library.DAList"
begin

section \<open>Python values\<close>

text \<open>
  The exceptions the modelled code can raise. A Python \<open>float\<close> is modelled as a
  \<open>real\<close>: rounding, overflow and NaN are outside the model. A Python \<open>dict\<close> is an
  insertion-ordered association list with distinct keys, the type \<open>alist\<close> of
  \<open>HOL-Library.DAList\<close>; a \<open>tuple\<close> is a list.
\<close>

datatype error =
  ZeroDivisionError | TypeError | AttributeError | ValidationError
  | FileNotFoundError | PermissionError | JSONDecodeError

text \<open>
  What \<open>json.load\<close> returns and \<open>json.dump\<close> accepts. \<open>JDict\<close> carries the members of
  a JSON object in document order.
\<close>

datatype json =
  JNull | JBool bool | JInt int | JFloat real | JStr string
  | JList "json list" | JDict "(string \<times> json) list"

text \<open>\<open>a /= n\<close> for a float \<open>a\<close> and an \<open>int\<close> \<open>n = len(...)\<close>: true division raises on zero.\<close>

definition truediv :: "real \<Rightarrow> nat \<Rightarrow> error + real" where
  "truediv a n = (if n = 0 then Inl ZeroDivisionError else Inr (a / real n))"

text \<open>
  A Python \<open>dict\<close> built from key/value pairs in order: a later pair with a key already
  present overwrites the value and keeps the key's position.
\<close>

definition dict_of_pairs :: "('k \<times> 'v) list \<Rightarrow> ('k, 'v) alist" where
  "dict_of_pairs kvs = foldl (\<lambda>d (k, v). DAList.update k v d) DAList.empty kvs"

definition items :: "('k, 'v) alist \<Rightarrow> ('k \<times> 'v) list" where
  "items d = DAList.impl_of d"

definition dict_len :: "('k, 'v) alist \<Rightarrow> nat" where
  "dict_len d = length (DAList.impl_of d)"

definition keys :: "('k, 'v) alist \<Rightarrow> 'k set" where
  "keys d = fst ` set (DAList.impl_of d)"


section \<open>data_models.py\<close>

record CartesianLandmark =
  "identifier" :: string
  x_m :: real
  y_m :: real
  z_m :: real
  uncertainty_m :: real

record GeodeticLandmark =
  "identifier" :: string
  latitude_deg :: real
  longitude_deg :: real
  altitude_m :: real
  latitude_uncertainty_deg :: real
  longitude_uncertainty_deg :: real
  altitude_uncertainty_m :: real

text \<open>
  What the store uses of a pydantic model class: the constructor applied to keyword
  arguments (\<open>data_model(**model_dict)\<close>), the attribute \<open>.identifier\<close> of an instance,
  and \<open>.dict()\<close>.
\<close>

record 'r data_model =
  model_init :: "(string, json) alist \<Rightarrow> error + 'r"
  model_identifier :: "'r \<Rightarrow> string"
  model_dict :: "'r \<Rightarrow> (string, json) alist"

text \<open>
  pydantic's validation of one required field: the keyword must be present and its
  value pass the validator of the field's type; keywords that name no field are
  ignored (pydantic's default \<open>extra = ignore\<close>). The validators of the types \<open>str\<close> and
  \<open>float\<close> belong to the pydantic library; they are parameters here, \<open>None\<close> for a value
  they reject.
\<close>

definition required :: "(string, json) alist \<Rightarrow> string \<Rightarrow> (json \<Rightarrow> 'a option) \<Rightarrow> 'a option" where
  "required kwargs name validator =
     (case DAList.lookup kwargs name of None \<Rightarrow> None | Some v \<Rightarrow> validator v)"

definition CartesianLandmark_init ::
  "(json \<Rightarrow> string option) \<Rightarrow> (json \<Rightarrow> real option) \<Rightarrow> (string, json) alist
     \<Rightarrow> error + CartesianLandmark" where
  "CartesianLandmark_init str_validator float_validator kwargs =
     (case required kwargs ''identifier'' str_validator of None \<Rightarrow> Inl ValidationError
      | Some i \<Rightarrow>
     (case required kwargs ''x_m'' float_validator of None \<Rightarrow> Inl ValidationError
      | Some x \<Rightarrow>
     (case required kwargs ''y_m'' float_validator of None \<Rightarrow> Inl ValidationError
      | Some y \<Rightarrow>
     (case required kwargs ''z_m'' float_validator of None \<Rightarrow> Inl ValidationError
      | Some z \<Rightarrow>
     (case required kwargs ''uncertainty_m'' float_validator of None \<Rightarrow> Inl ValidationError
      | Some u \<Rightarrow>
       Inr \<lparr>CartesianLandmark.identifier = i, x_m = x, y_m = y, z_m = z,
            uncertainty_m = u\<rparr>)))))"

definition GeodeticLandmark_init ::
  "(json \<Rightarrow> string option) \<Rightarrow> (json \<Rightarrow> real option) \<Rightarrow> (string, json) alist
     \<Rightarrow> error + GeodeticLandmark" where
  "GeodeticLandmark_init str_validator float_validator kwargs =
     (case required kwargs ''identifier'' str_validator of None \<Rightarrow> Inl ValidationError
      | Some i \<Rightarrow>
     (case required kwargs ''latitude_deg'' float_validator of None \<Rightarrow> Inl ValidationError
      | Some lat \<Rightarrow>
     (case required kwargs ''longitude_deg'' float_validator of None \<Rightarrow> Inl ValidationError
      | Some lon \<Rightarrow>
     (case required kwargs ''altitude_m'' float_validator of None \<Rightarrow> Inl ValidationError
      | Some alt \<Rightarrow>
     (case required kwargs ''latitude_uncertainty_deg'' float_validator of
        None \<Rightarrow> Inl ValidationError
      | Some ulat \<Rightarrow>
     (case required kwargs ''longitude_uncertainty_deg'' float_validator of
        None \<Rightarrow> Inl ValidationError
      | Some ulon \<Rightarrow>
     (case required kwargs ''altitude_uncertainty_m'' float_validator of
        None \<Rightarrow> Inl ValidationError
      | Some ualt \<Rightarrow>
       Inr \<lparr>GeodeticLandmark.identifier = i, latitude_deg = lat, longitude_deg = lon,
            altitude_m = alt, latitude_uncertainty_deg = ulat,
            longitude_uncertainty_deg = ulon, altitude_uncertainty_m = ualt\<rparr>)))))))"

definition CartesianLandmark_dict :: "CartesianLandmark \<Rightarrow> (string, json) alist" where
  "CartesianLandmark_dict m = dict_of_pairs
     [(''identifier'', JStr (CartesianLandmark.identifier m)),
      (''x_m'', JFloat (x_m m)), (''y_m'', JFloat (y_m m)), (''z_m'', JFloat (z_m m)),
      (''uncertainty_m'', JFloat (uncertainty_m m))]"

definition GeodeticLandmark_dict :: "GeodeticLandmark \<Rightarrow> (string, json) alist" where
  "GeodeticLandmark_dict m = dict_of_pairs
     [(''identifier'', JStr (GeodeticLandmark.identifier m)),
      (''latitude_deg'', JFloat (latitude_deg m)),
      (''longitude_deg'', JFloat (longitude_deg m)),
      (''altitude_m'', JFloat (altitude_m m)),
      (''latitude_uncertainty_deg'', JFloat (latitude_uncertainty_deg m)),
      (''longitude_uncertainty_deg'', JFloat (longitude_uncertainty_deg m)),
      (''altitude_uncertainty_m'', JFloat (altitude_uncertainty_m m))]"

definition CartesianLandmark_class ::
  "(json \<Rightarrow> string option) \<Rightarrow> (json \<Rightarrow> real option) \<Rightarrow> CartesianLandmark data_model" where
  "CartesianLandmark_class str_validator float_validator =
     \<lparr>model_init = CartesianLandmark_init str_validator float_validator,
      model_identifier = CartesianLandmark.identifier,
      model_dict = CartesianLandmark_dict\<rparr>"

definition GeodeticLandmark_class ::
  "(json \<Rightarrow> string option) \<Rightarrow> (json \<Rightarrow> real option) \<Rightarrow> GeodeticLandmark data_model" where
  "GeodeticLandmark_class str_validator float_validator =
     \<lparr>model_init = GeodeticLandmark_init str_validator float_validator,
      model_identifier = GeodeticLandmark.identifier,
      model_dict = GeodeticLandmark_dict\<rparr>"


section \<open>landmark_store.py\<close>

record 'r LandmarkStore =
  data_model :: "'r data_model"
  storage :: "(string, 'r list) alist"

definition LandmarkStore_init :: "'r data_model \<Rightarrow> 'r LandmarkStore" where
  "LandmarkStore_init dm = \<lparr>data_model = dm, storage = DAList.empty\<rparr>"

definition LandmarkStore_get :: "'r LandmarkStore \<Rightarrow> string \<Rightarrow> 'r list" where
  "LandmarkStore_get self i =
     (case DAList.lookup (storage self) i of None \<Rightarrow> [] | Some t \<Rightarrow> t)"

text \<open>\<open>put\<close> returns the store after the call and the flag.\<close>

definition LandmarkStore_put :: "'r LandmarkStore \<Rightarrow> 'r \<Rightarrow> 'r LandmarkStore \<times> bool" where
  "LandmarkStore_put self datum =
     (let i = model_identifier (data_model self) datum in
      case DAList.lookup (storage self) i of
        Some existing_data \<Rightarrow>
          (self\<lparr>storage := DAList.update i (existing_data @ [datum]) (storage self)\<rparr>, True)
      | None \<Rightarrow>
          (self\<lparr>storage := DAList.update i [datum] (storage self)\<rparr>, False))"

definition LandmarkStore_len :: "'r LandmarkStore \<Rightarrow> nat" where
  "LandmarkStore_len self = dict_len (storage self)"


subsection \<open>Files\<close>

text \<open>
  The file system as \<open>save\<close> and \<open>load\<close> see it: a path holds no file, a file that
  cannot be opened, a file whose text is not JSON, or a JSON document. Text encoding
  and decoding (\<open>json.dump\<close>, \<open>json.load\<close>) are the library's; a document is kept
  as the value \<open>json.load\<close> returns for it. Paths are taken as already absolute, and
  a write is taken to succeed.
\<close>

datatype file_content = Unreadable | Malformed | Document json

type_synonym filesystem = "string \<Rightarrow> file_content option"

definition json_load :: "filesystem \<Rightarrow> string \<Rightarrow> error + json" where
  "json_load fs path =
     (case fs path of
        None \<Rightarrow> Inl FileNotFoundError
      | Some Unreadable \<Rightarrow> Inl PermissionError
      | Some Malformed \<Rightarrow> Inl JSONDecodeError
      | Some (Document raw_data) \<Rightarrow> Inr raw_data)"

text \<open>The document \<open>json.dump\<close> writes for a dict of lists of dicts.\<close>

definition json_dump :: "(string, (string, json) alist list) alist \<Rightarrow> json" where
  "json_dump d =
     JDict (map (\<lambda>(k, models). (k, JList (map (\<lambda>m. JDict (items m)) models))) (items d))"

definition LandmarkStore_save :: "'r LandmarkStore \<Rightarrow> string \<Rightarrow> filesystem \<Rightarrow> filesystem" where
  "LandmarkStore_save self save_file fs =
     (let serializable_data = dict_of_pairs
        (map (\<lambda>(i, models_tuple). (i, map (model_dict (data_model self)) models_tuple))
           (items (storage self)))
      in fs(save_file \<mapsto> Document (json_dump serializable_data)))"

text \<open>
  Iterating a loaded value, as the generator in \<open>load\<close> does: a list yields its
  elements, a dict its keys, a string its characters; anything else is not iterable.
\<close>

fun iter :: "json \<Rightarrow> error + json list" where
  "iter (JList xs) = Inr xs"
| "iter (JDict kvs) = Inr (map (\<lambda>(k, v). JStr k) (items (dict_of_pairs kvs)))"
| "iter (JStr s) = Inr (map (\<lambda>c. JStr [c]) s)"
| "iter v = Inl TypeError"

text \<open>\<open>self.data_model(**model_dict)\<close>: the argument after \<open>**\<close> must be a mapping.\<close>

fun construct :: "'r data_model \<Rightarrow> json \<Rightarrow> error + 'r" where
  "construct dm (JDict kvs) = model_init dm (dict_of_pairs kvs)"
| "construct dm v = Inl TypeError"

fun construct_all :: "'r data_model \<Rightarrow> json list \<Rightarrow> error + 'r list" where
  "construct_all dm [] = Inr []"
| "construct_all dm (d # rest) =
     (case construct dm d of Inl e \<Rightarrow> Inl e
      | Inr m \<Rightarrow>
        (case construct_all dm rest of Inl e \<Rightarrow> Inl e | Inr ms \<Rightarrow> Inr (m # ms)))"

text \<open>The dict comprehension of \<open>load\<close>, over the items of \<open>raw_data\<close>.\<close>

fun rebuild ::
  "'r data_model \<Rightarrow> (string \<times> json) list \<Rightarrow> (string, 'r list) alist
     \<Rightarrow> error + (string, 'r list) alist" where
  "rebuild dm [] acc = Inr acc"
| "rebuild dm ((i, models_list) # rest) acc =
     (case iter models_list of Inl e \<Rightarrow> Inl e
      | Inr ds \<Rightarrow>
        (case construct_all dm ds of Inl e \<Rightarrow> Inl e
         | Inr ms \<Rightarrow> rebuild dm rest (DAList.update i ms acc)))"

text \<open>
  \<open>load\<close> returns the store after the call and the number of identifiers loaded; an
  exception (\<open>Inl\<close>) leaves the store as it was, since \<open>self._storage\<close> is assigned
  only once the comprehension has finished.
\<close>

definition LandmarkStore_load ::
  "'r LandmarkStore \<Rightarrow> string \<Rightarrow> filesystem \<Rightarrow> error + ('r LandmarkStore \<times> nat)" where
  "LandmarkStore_load self load_file fs =
     (case json_load fs load_file of Inl e \<Rightarrow> Inl e
      | Inr raw_data \<Rightarrow>
        (case raw_data of
           JDict kvs \<Rightarrow>
             (case rebuild (data_model self) (items (dict_of_pairs kvs)) DAList.empty of
                Inl e \<Rightarrow> Inl e
              | Inr new_storage \<Rightarrow>
                  Inr (self\<lparr>storage := new_storage\<rparr>, dict_len new_storage))
         | _ \<Rightarrow> Inl AttributeError))"


section \<open>localisation.py\<close>

record GlobalLocalisation =
  store :: "GeodeticLandmark LandmarkStore"

record CartesianLocalisation =
  store :: "CartesianLandmark LandmarkStore"

definition GlobalLocalisation_init ::
  "(json \<Rightarrow> string option) \<Rightarrow> (json \<Rightarrow> real option) \<Rightarrow> GlobalLocalisation" where
  "GlobalLocalisation_init str_validator float_validator =
     \<lparr>GlobalLocalisation.store =
        LandmarkStore_init (GeodeticLandmark_class str_validator float_validator)\<rparr>"

definition CartesianLocalisation_init ::
  "(json \<Rightarrow> string option) \<Rightarrow> (json \<Rightarrow> real option) \<Rightarrow> CartesianLocalisation" where
  "CartesianLocalisation_init str_validator float_validator =
     \<lparr>CartesianLocalisation.store =
        LandmarkStore_init (CartesianLandmark_class str_validator float_validator)\<rparr>"

text \<open>
  \<open>add_data\<close>: an uncertainty argument left out (\<open>None\<close>) takes its default. The
  arguments are a \<open>str\<close> and floats, as annotated, so the constructor accepts them.
\<close>

definition GlobalLocalisation_add_data ::
  "GlobalLocalisation \<Rightarrow> string \<Rightarrow> real \<Rightarrow> real \<Rightarrow> real
     \<Rightarrow> real option \<Rightarrow> real option \<Rightarrow> real option \<Rightarrow> GlobalLocalisation" where
  "GlobalLocalisation_add_data self i lat lon alt ulat ulon ualt =
     (let landmark =
        \<lparr>GeodeticLandmark.identifier = i, latitude_deg = lat, longitude_deg = lon,
         altitude_m = alt,
         latitude_uncertainty_deg = (case ulat of None \<Rightarrow> 1 / 1000000 | Some u \<Rightarrow> u),
         longitude_uncertainty_deg = (case ulon of None \<Rightarrow> 1 / 1000000 | Some u \<Rightarrow> u),
         altitude_uncertainty_m = (case ualt of None \<Rightarrow> 10 | Some u \<Rightarrow> u)\<rparr>
      in self\<lparr>GlobalLocalisation.store :=
           fst (LandmarkStore_put (GlobalLocalisation.store self) landmark)\<rparr>)"

definition GlobalLocalisation_get_data ::
  "GlobalLocalisation \<Rightarrow> string \<Rightarrow> GeodeticLandmark list" where
  "GlobalLocalisation_get_data self i = LandmarkStore_get (GlobalLocalisation.store self) i"

definition GlobalLocalisation_len :: "GlobalLocalisation \<Rightarrow> nat" where
  "GlobalLocalisation_len self = LandmarkStore_len (GlobalLocalisation.store self)"

text \<open>The summing loop of \<open>localise\<close>, from the accumulators \<open>(0.0, 0.0, 0.0)\<close>.\<close>

fun geodetic_sum :: "GeodeticLandmark list \<Rightarrow> real \<times> real \<times> real \<Rightarrow> real \<times> real \<times> real" where
  "geodetic_sum [] acc = acc"
| "geodetic_sum (landmark # rest) (lat, lon, alt) =
     geodetic_sum rest
       (lat + latitude_deg landmark, lon + longitude_deg landmark, alt + altitude_m landmark)"

definition GlobalLocalisation_localise ::
  "GlobalLocalisation \<Rightarrow> string \<Rightarrow> error + GeodeticLandmark option" where
  "GlobalLocalisation_localise self i =
     (let landmark_tuple = GlobalLocalisation_get_data self i in
      if length landmark_tuple = 0 then Inr None
      else
        (case geodetic_sum landmark_tuple (0, 0, 0) of (lat, lon, alt) \<Rightarrow>
        (case truediv lat (length landmark_tuple) of Inl e \<Rightarrow> Inl e | Inr lat' \<Rightarrow>
        (case truediv lon (length landmark_tuple) of Inl e \<Rightarrow> Inl e | Inr lon' \<Rightarrow>
        (case truediv alt (length landmark_tuple) of Inl e \<Rightarrow> Inl e | Inr alt' \<Rightarrow>
           Inr (Some \<lparr>GeodeticLandmark.identifier = i, latitude_deg = lat',
                      longitude_deg = lon', altitude_m = alt',
                      latitude_uncertainty_deg = 1 / 1000000,
                      longitude_uncertainty_deg = 1 / 1000000,
                      altitude_uncertainty_m = 10\<rparr>))))))"

definition GlobalLocalisation_save ::
  "GlobalLocalisation \<Rightarrow> string \<Rightarrow> filesystem \<Rightarrow> filesystem" where
  "GlobalLocalisation_save self filename fs =
     LandmarkStore_save (GlobalLocalisation.store self) filename fs"

definition GlobalLocalisation_load ::
  "GlobalLocalisation \<Rightarrow> string \<Rightarrow> filesystem \<Rightarrow> error + GlobalLocalisation" where
  "GlobalLocalisation_load self filename fs =
     (case LandmarkStore_load (GlobalLocalisation.store self) filename fs of
        Inl e \<Rightarrow> Inl e
      | Inr (st, n) \<Rightarrow> Inr (self\<lparr>GlobalLocalisation.store := st\<rparr>))"

definition CartesianLocalisation_add_data ::
  "CartesianLocalisation \<Rightarrow> string \<Rightarrow> real \<Rightarrow> real \<Rightarrow> real \<Rightarrow> real option
     \<Rightarrow> CartesianLocalisation" where
  "CartesianLocalisation_add_data self i x y z u =
     (let landmark =
        \<lparr>CartesianLandmark.identifier = i, x_m = x, y_m = y, z_m = z,
         uncertainty_m = (case u of None \<Rightarrow> 1 / 10 | Some v \<Rightarrow> v)\<rparr>
      in self\<lparr>CartesianLocalisation.store :=
           fst (LandmarkStore_put (CartesianLocalisation.store self) landmark)\<rparr>)"

definition CartesianLocalisation_get_data ::
  "CartesianLocalisation \<Rightarrow> string \<Rightarrow> CartesianLandmark list" where
  "CartesianLocalisation_get_data self i =
     LandmarkStore_get (CartesianLocalisation.store self) i"

definition CartesianLocalisation_len :: "CartesianLocalisation \<Rightarrow> nat" where
  "CartesianLocalisation_len self = LandmarkStore_len (CartesianLocalisation.store self)"

fun cartesian_sum :: "CartesianLandmark list \<Rightarrow> real \<times> real \<times> real \<Rightarrow> real \<times> real \<times> real" where
  "cartesian_sum [] acc = acc"
| "cartesian_sum (landmark # rest) (x, y, z) =
     cartesian_sum rest (x + x_m landmark, y + y_m landmark, z + z_m landmark)"

definition CartesianLocalisation_localise ::
  "CartesianLocalisation \<Rightarrow> string \<Rightarrow> error + CartesianLandmark option" where
  "CartesianLocalisation_localise self i =
     (let landmark_tuple = CartesianLocalisation_get_data self i in
      if length landmark_tuple = 0 then Inr None
      else
        (case cartesian_sum landmark_tuple (0, 0, 0) of (x, y, z) \<Rightarrow>
        (case truediv x (length landmark_tuple) of Inl e \<Rightarrow> Inl e | Inr x' \<Rightarrow>
        (case truediv y (length landmark_tuple) of Inl e \<Rightarrow> Inl e | Inr y' \<Rightarrow>
        (case truediv z (length landmark_tuple) of Inl e \<Rightarrow> Inl e | Inr z' \<Rightarrow>
           Inr (Some \<lparr>CartesianLandmark.identifier = i, x_m = x', y_m = y', z_m = z',
                      uncertainty_m = 1 / 10\<rparr>))))))"


section \<open>examples/wifi_gps.py, examples/wifi_ipinfo.py\<close>

text \<open>
  \<open>WifiGlobalLocalisation\<close> extends \<open>GlobalLocalisation\<close> with no field of its own.
  \<open>hashlib.md5(...).hexdigest()\<close> is the library's; it is the parameter \<open>md5\<close>.
\<close>

definition hash_wifi :: "(string \<Rightarrow> string) \<Rightarrow> string \<Rightarrow> string \<Rightarrow> string" where
  "hash_wifi md5 ssid mac = md5 (ssid @ mac)"

definition add_wifi_data ::
  "(string \<Rightarrow> string) \<Rightarrow> GlobalLocalisation \<Rightarrow> string \<Rightarrow> string \<Rightarrow> real \<Rightarrow> real \<Rightarrow> real
     \<Rightarrow> GlobalLocalisation" where
  "add_wifi_data md5 self ssid mac lat lon alt =
     GlobalLocalisation_add_data self (hash_wifi md5 ssid mac) lat lon alt None None None"

definition localise_wifi ::
  "(string \<Rightarrow> string) \<Rightarrow> GlobalLocalisation \<Rightarrow> string \<Rightarrow> string
     \<Rightarrow> error + GeodeticLandmark option" where
  "localise_wifi md5 self ssid mac = GlobalLocalisation_localise self (hash_wifi md5 ssid mac)"

text \<open>The loop of \<open>localise_multiple\<close>: a landmark that is \<open>None\<close> adds nothing.\<close>

fun multiple_sum ::
  "(string \<Rightarrow> string) \<Rightarrow> GlobalLocalisation \<Rightarrow> (string \<times> string) list
     \<Rightarrow> real \<times> real \<times> real \<Rightarrow> error + real \<times> real \<times> real" where
  "multiple_sum md5 self [] acc = Inr acc"
| "multiple_sum md5 self ((ssid, mac) # rest) (lat, lon, alt) =
     (case localise_wifi md5 self ssid mac of
        Inl e \<Rightarrow> Inl e
      | Inr None \<Rightarrow> multiple_sum md5 self rest (lat, lon, alt)
      | Inr (Some landmark) \<Rightarrow>
          multiple_sum md5 self rest
            (lat + latitude_deg landmark, lon + longitude_deg landmark,
             alt + altitude_m landmark))"

definition localise_multiple ::
  "(string \<Rightarrow> string) \<Rightarrow> GlobalLocalisation \<Rightarrow> (string \<times> string) list
     \<Rightarrow> error + real \<times> real \<times> real" where
  "localise_multiple md5 self wifi_tuple =
     (case multiple_sum md5 self wifi_tuple (0, 0, 0) of Inl e \<Rightarrow> Inl e
      | Inr (lat, lon, alt) \<Rightarrow>
        (case truediv lat (length wifi_tuple) of Inl e \<Rightarrow> Inl e | Inr lat' \<Rightarrow>
        (case truediv lon (length wifi_tuple) of Inl e \<Rightarrow> Inl e | Inr lon' \<Rightarrow>
        (case truediv alt (length wifi_tuple) of Inl e \<Rightarrow> Inl e | Inr alt' \<Rightarrow>
           Inr (lat', lon', alt')))))"


section \<open>Declared fields\<close>

text \<open>
  The fields \<open>data_models.py\<close> declares for each model, with their types. Keyword
  arguments supply a field when the keyword is present and the validator of the field's
  type accepts its value.
\<close>

datatype field_type = Str | Float

definition CartesianLandmark_fields :: "(string \<times> field_type) list" where
  "CartesianLandmark_fields =
     [(''identifier'', Str), (''x_m'', Float), (''y_m'', Float), (''z_m'', Float),
      (''uncertainty_m'', Float)]"

definition GeodeticLandmark_fields :: "(string \<times> field_type) list" where
  "GeodeticLandmark_fields =
     [(''identifier'', Str), (''latitude_deg'', Float), (''longitude_deg'', Float),
      (''altitude_m'', Float), (''latitude_uncertainty_deg'', Float),
      (''longitude_uncertainty_deg'', Float), (''altitude_uncertainty_m'', Float)]"

definition accepts ::
  "(json \<Rightarrow> string option) \<Rightarrow> (json \<Rightarrow> real option) \<Rightarrow> (string, json) alist
     \<Rightarrow> string \<times> field_type \<Rightarrow> bool" where
  "accepts str_validator float_validator kwargs f =
     (case DAList.lookup kwargs (fst f) of
        None \<Rightarrow> False
      | Some v \<Rightarrow>
          (case snd f of Str \<Rightarrow> str_validator v \<noteq> None | Float \<Rightarrow> float_validator v \<noteq> None))"


section \<open>Example values\<close>

text \<open>
  Instances of the two library validators that accept exactly a \<open>str\<close> and exactly a
  \<open>float\<close>, and the stores and documents of the concrete scenarios below.
\<close>

definition str_strict :: "json \<Rightarrow> string option" where
  "str_strict v = (case v of JStr s \<Rightarrow> Some s | _ \<Rightarrow> None)"

definition float_strict :: "json \<Rightarrow> real option" where
  "float_strict v = (case v of JFloat r \<Rightarrow> Some r | _ \<Rightarrow> None)"

definition geo :: "string \<Rightarrow> real \<Rightarrow> real \<Rightarrow> real \<Rightarrow> GeodeticLandmark" where
  "geo i lat lon alt =
     \<lparr>GeodeticLandmark.identifier = i, latitude_deg = lat, longitude_deg = lon,
      altitude_m = alt, latitude_uncertainty_deg = 1 / 1000000,
      longitude_uncertainty_deg = 1 / 1000000, altitude_uncertainty_m = 10\<rparr>"

definition geodetic_store :: "GeodeticLandmark LandmarkStore" where
  "geodetic_store = LandmarkStore_init (GeodeticLandmark_class str_strict float_strict)"

definition scenario_A :: GlobalLocalisation where
  "scenario_A =
     GlobalLocalisation_add_data
       (GlobalLocalisation_add_data (GlobalLocalisation_init str_strict float_strict)
          ''A'' 0 0 0 None None None)
       ''A'' 2 4 6 None None None"

definition scenario_B :: CartesianLocalisation where
  "scenario_B =
     CartesianLocalisation_add_data
       (CartesianLocalisation_add_data (CartesianLocalisation_init str_strict float_strict)
          ''B'' 0 0 0 None)
       ''B'' 2 4 6 (Some 5)"





section \<open>Auxiliary lemmas\<close>

subsection \<open>Dictionaries\<close>

lemma lookup_update:
  "DAList.lookup (DAList.update k v d) k' = (if k' = k then Some v else DAList.lookup d k')"
  by (simp add: DAList.lookup.rep_eq DAList.update.rep_eq update_conv')

lemma keys_update: "keys (DAList.update k v d) = insert k (keys d)"
  by (simp add: keys_def DAList.update.rep_eq AList.dom_update)

lemma keys_empty: "keys DAList.empty = {}"
  by (simp add: keys_def DAList.empty.rep_eq)

lemma lookup_None_iff: "DAList.lookup d k = None \<longleftrightarrow> k \<notin> keys d"
  by (simp add: DAList.lookup.rep_eq keys_def map_of_eq_None_iff)

lemma lookup_Some_iff: "(\<exists>v. DAList.lookup d k = Some v) \<longleftrightarrow> k \<in> keys d"
  using lookup_None_iff [of d k] by auto

lemma dict_len_card: "dict_len d = card (keys d)"
proof -
  have "distinct (map fst (DAList.impl_of d))" by simp
  then have "card (set (map fst (DAList.impl_of d))) = length (map fst (DAList.impl_of d))"
    by (rule distinct_card)
  then show ?thesis by (simp add: dict_len_def keys_def)
qed

lemma dict_len_update:
  "dict_len (DAList.update k v d) = (if k \<in> keys d then dict_len d else Suc (dict_len d))"
proof -
  have "finite (keys d)" by (simp add: keys_def)
  then show ?thesis by (simp add: dict_len_card keys_update insert_absorb)
qed

lemma update_fresh: "k \<notin> fst ` set al \<Longrightarrow> AList.update k v al = al @ [(k, v)]"
  by (induct al) auto

lemma foldl_update_impl:
  "distinct (map fst kvs) \<Longrightarrow> fst ` set kvs \<inter> keys acc = {} \<Longrightarrow>
   DAList.impl_of (foldl (\<lambda>d (k, v). DAList.update k v d) acc kvs) = DAList.impl_of acc @ kvs"
proof (induction kvs arbitrary: acc)
  case Nil
  then show ?case by simp
next
  case (Cons kv kvs)
  obtain k v where kv: "kv = (k, v)" by (cases kv)
  from Cons.prems kv have fresh: "k \<notin> keys acc" by auto
  then have step: "DAList.impl_of (DAList.update k v acc) = DAList.impl_of acc @ [(k, v)]"
    by (simp add: DAList.update.rep_eq update_fresh keys_def)
  from Cons.prems kv have "fst ` set kvs \<inter> keys (DAList.update k v acc) = {}"
    by (auto simp: keys_update)
  with Cons.IH [of "DAList.update k v acc"] Cons.prems kv step show ?case
    by simp
qed

lemma items_dict_of_pairs: "distinct (map fst kvs) \<Longrightarrow> items (dict_of_pairs kvs) = kvs"
  by (simp add: items_def dict_of_pairs_def foldl_update_impl keys_empty DAList.empty.rep_eq)

lemma dict_of_pairs_items: "dict_of_pairs (items d) = d"
  by (rule alist_ext) (simp add: items_dict_of_pairs [unfolded items_def] items_def)

lemma distinct_items: "distinct (map fst (items d))"
  by (simp add: items_def)

lemma map_fst_pairs: "map fst (map (\<lambda>(k, v). (k, f v)) xs) = map fst xs"
  by (simp add: comp_def case_prod_beta)

lemma lookup_dict_of_pairs_Cons:
  "DAList.lookup (foldl (\<lambda>d (k, v). DAList.update k v d) acc kvs) n =
     (case map_of (rev kvs) n of None \<Rightarrow> DAList.lookup acc n | Some v \<Rightarrow> Some v)"
  by (induction kvs arbitrary: acc) (auto simp: lookup_update split: option.splits)

lemma lookup_empty: "DAList.lookup DAList.empty n = None"
  by (simp add: DAList.lookup.rep_eq DAList.empty.rep_eq)

lemma lookup_dict_of_pairs: "DAList.lookup (dict_of_pairs kvs) n = map_of (rev kvs) n"
  by (simp add: dict_of_pairs_def lookup_dict_of_pairs_Cons lookup_empty split: option.splits)





subsection \<open>The store\<close>

lemma put_get:
  "LandmarkStore_get (fst (LandmarkStore_put self datum)) i =
     (if i = model_identifier (data_model self) datum
      then LandmarkStore_get self i @ [datum] else LandmarkStore_get self i)"
  by (simp add: LandmarkStore_put_def LandmarkStore_get_def Let_def lookup_update
      split: option.splits)

lemma put_Some:
  "DAList.lookup (storage self) (model_identifier (data_model self) datum) = Some t \<Longrightarrow>
   LandmarkStore_put self datum =
     (self\<lparr>storage := DAList.update (model_identifier (data_model self) datum) (t @ [datum])
         (storage self)\<rparr>, True)"
  by (simp add: LandmarkStore_put_def Let_def)

lemma put_None:
  "DAList.lookup (storage self) (model_identifier (data_model self) datum) = None \<Longrightarrow>
   LandmarkStore_put self datum =
     (self\<lparr>storage := DAList.update (model_identifier (data_model self) datum) [datum]
         (storage self)\<rparr>, False)"
  by (simp add: LandmarkStore_put_def Let_def)

lemma get_init: "LandmarkStore_get (LandmarkStore_init dm) i = []"
  by (simp add: LandmarkStore_get_def LandmarkStore_init_def DAList.lookup.rep_eq
      DAList.empty.rep_eq)

lemma init_data_model: "data_model (LandmarkStore_init dm) = dm"
  by (simp add: LandmarkStore_init_def)

lemma put_data_model: "data_model (fst (LandmarkStore_put self datum)) = data_model self"
  by (simp add: LandmarkStore_put_def Let_def split: option.splits)

lemma get_absent: "i \<notin> keys (storage self) \<Longrightarrow> LandmarkStore_get self i = []"
  by (simp add: LandmarkStore_get_def lookup_None_iff [symmetric])

lemma len_init: "LandmarkStore_len (LandmarkStore_init dm) = 0"
  by (simp add: LandmarkStore_len_def LandmarkStore_init_def dict_len_def DAList.empty.rep_eq)

lemma keys_init: "keys (storage (LandmarkStore_init dm)) = {}"
  by (simp add: LandmarkStore_init_def keys_empty)

lemma put_len:
  "LandmarkStore_len (fst (LandmarkStore_put self datum)) =
     (if model_identifier (data_model self) datum \<in> keys (storage self)
      then LandmarkStore_len self else Suc (LandmarkStore_len self))"
proof (cases "DAList.lookup (storage self) (model_identifier (data_model self) datum)")
  case None
  then show ?thesis
    by (simp add: put_None LandmarkStore_len_def dict_len_update lookup_None_iff)
next
  case (Some t)
  then have "model_identifier (data_model self) datum \<in> keys (storage self)"
    using lookup_Some_iff by fastforce
  with Some show ?thesis
    by (simp add: put_Some LandmarkStore_len_def dict_len_update)
qed


lemma put_keys:
  "keys (storage (fst (LandmarkStore_put self datum))) =
     insert (model_identifier (data_model self) datum) (keys (storage self))"
  by (simp add: LandmarkStore_put_def Let_def keys_update split: option.splits)


subsection \<open>The data models\<close>

lemma geodetic_class_identifier:
  "model_identifier (GeodeticLandmark_class sv fv) = GeodeticLandmark.identifier"
  by (simp add: GeodeticLandmark_class_def)

lemma cartesian_class_identifier:
  "model_identifier (CartesianLandmark_class sv fv) = CartesianLandmark.identifier"
  by (simp add: CartesianLandmark_class_def)

lemma required_None_str:
  "required kw n sv = None \<longleftrightarrow> \<not> accepts sv fv kw (n, Str)"
  by (simp add: required_def accepts_def split: option.splits)

lemma required_None_float:
  "required kw n fv = None \<longleftrightarrow> \<not> accepts sv fv kw (n, Float)"
  by (simp add: required_def accepts_def split: option.splits)



lemma geodetic_init_accepts:
  assumes "\<forall>f \<in> set GeodeticLandmark_fields. accepts sv fv kw f"
  shows "\<exists>m. GeodeticLandmark_init sv fv kw = Inr m"
proof -
  from assms have
    "required kw ''identifier'' sv \<noteq> None \<and> required kw ''latitude_deg'' fv \<noteq> None
     \<and> required kw ''longitude_deg'' fv \<noteq> None \<and> required kw ''altitude_m'' fv \<noteq> None
     \<and> required kw ''latitude_uncertainty_deg'' fv \<noteq> None
     \<and> required kw ''longitude_uncertainty_deg'' fv \<noteq> None
     \<and> required kw ''altitude_uncertainty_m'' fv \<noteq> None"
    unfolding required_None_str [of _ _ sv fv] required_None_float [of _ _ fv sv]
    by (simp add: GeodeticLandmark_fields_def)
  then show ?thesis
    by (auto simp: GeodeticLandmark_init_def split: option.splits)
qed

lemma cartesian_init_accepts:
  assumes "\<forall>f \<in> set CartesianLandmark_fields. accepts sv fv kw f"
  shows "\<exists>m. CartesianLandmark_init sv fv kw = Inr m"
proof -
  from assms have
    "required kw ''identifier'' sv \<noteq> None \<and> required kw ''x_m'' fv \<noteq> None
     \<and> required kw ''y_m'' fv \<noteq> None \<and> required kw ''z_m'' fv \<noteq> None
     \<and> required kw ''uncertainty_m'' fv \<noteq> None"
    unfolding required_None_str [of _ _ sv fv] required_None_float [of _ _ fv sv]
    by (simp add: CartesianLandmark_fields_def)
  then show ?thesis
    by (auto simp: CartesianLandmark_init_def split: option.splits)
qed

lemma geodetic_roundtrip:
  assumes "\<And>s. sv (JStr s) = Some s" "\<And>x. fv (JFloat x) = Some x"
  shows "GeodeticLandmark_init sv fv (GeodeticLandmark_dict m) = Inr m"
  by (simp add: GeodeticLandmark_init_def GeodeticLandmark_dict_def required_def
      lookup_dict_of_pairs assms)

lemma cartesian_roundtrip:
  assumes "\<And>s. sv (JStr s) = Some s" "\<And>x. fv (JFloat x) = Some x"
  shows "CartesianLandmark_init sv fv (CartesianLandmark_dict m) = Inr m"
  by (simp add: CartesianLandmark_init_def CartesianLandmark_dict_def required_def
      lookup_dict_of_pairs assms)



subsection \<open>Saving and loading\<close>

lemma construct_all_roundtrip:
  assumes "\<And>m. model_init dm (model_dict dm m) = Inr m"
  shows "construct_all dm (map (\<lambda>m. JDict (items (model_dict dm m))) ms) = Inr ms"
  by (induction ms) (simp_all add: dict_of_pairs_items assms)

lemma rebuild_roundtrip:
  assumes "\<And>m. model_init dm (model_dict dm m) = Inr m"
  shows "rebuild dm
           (map (\<lambda>(k, models). (k, JList (map (\<lambda>m. JDict (items m)) models)))
              (map (\<lambda>(i, models_tuple). (i, map (model_dict dm) models_tuple)) xs)) acc =
         Inr (foldl (\<lambda>d (k, v). DAList.update k v d) acc xs)"
proof (induction xs arbitrary: acc)
  case Nil
  then show ?case by simp
next
  case (Cons x xs)
  obtain i ms where x: "x = (i, ms)" by (cases x)
  have "construct_all dm (map (\<lambda>m. JDict (items m)) (map (model_dict dm) ms)) = Inr ms"
    using construct_all_roundtrip [OF assms, of ms] by (simp add: comp_def)
  with Cons.IH x show ?case by simp
qed

lemma save_load_generic:
  assumes rt: "\<And>m. model_init (data_model self) (model_dict (data_model self) m) = Inr m"
    and dm: "data_model fresh = data_model self"
  shows "LandmarkStore_load fresh p (LandmarkStore_save self p fs) =
           Inr (fresh\<lparr>storage := storage self\<rparr>, LandmarkStore_len self)"
proof -
  let ?f = "\<lambda>(i, models_tuple). (i, map (model_dict (data_model self)) models_tuple)"
  let ?g = "\<lambda>(k, models). (k, JList (map (\<lambda>m. JDict (items m)) models))"
  have d1: "distinct (map fst (map ?f (items (storage self))))"
    by (simp only: map_fst_pairs distinct_items)
  have d2: "distinct (map fst (map ?g (map ?f (items (storage self)))))"
    using d1 by (simp only: map_fst_pairs)
  have doc: "json_load (LandmarkStore_save self p fs) p =
      Inr (JDict (map ?g (map ?f (items (storage self)))))"
    by (simp add: json_load_def LandmarkStore_save_def Let_def json_dump_def
        items_dict_of_pairs [OF d1] del: map_map)
  have rb: "rebuild (data_model self) (map ?g (map ?f (items (storage self)))) DAList.empty =
      Inr (storage self)"
    using rebuild_roundtrip [OF rt, of "items (storage self)" DAList.empty]
      dict_of_pairs_items [of "storage self"]
    by (simp add: dict_of_pairs_def del: map_map)
  show ?thesis
    by (simp add: LandmarkStore_load_def doc items_dict_of_pairs [OF d2] dm rb
        LandmarkStore_len_def del: map_map)
qed









lemma load_not_object:
  "fs p = Some (Document raw) \<Longrightarrow> \<forall>kvs. raw \<noteq> JDict kvs \<Longrightarrow>
   LandmarkStore_load self p fs = Inl AttributeError"
  by (cases raw) (simp_all add: LandmarkStore_load_def json_load_def)






subsection \<open>The engines\<close>

lemma geodetic_sum_eq:
  "geodetic_sum xs (a, b, c) =
     (a + sum_list (map latitude_deg xs), b + sum_list (map longitude_deg xs),
      c + sum_list (map altitude_m xs))"
  by (induction xs arbitrary: a b c) (simp_all add: add.assoc)

lemma cartesian_sum_eq:
  "cartesian_sum xs (a, b, c) =
     (a + sum_list (map x_m xs), b + sum_list (map y_m xs), c + sum_list (map z_m xs))"
  by (induction xs arbitrary: a b c) (simp_all add: add.assoc)

lemma truediv_pos: "0 < n \<Longrightarrow> truediv a n = Inr (a / real n)"
  by (simp add: truediv_def)

lemma geodetic_localise_nonempty:
  "GlobalLocalisation_get_data self i \<noteq> [] \<Longrightarrow>
   GlobalLocalisation_localise self i =
     Inr (Some \<lparr>GeodeticLandmark.identifier = i,
       latitude_deg = sum_list (map latitude_deg (GlobalLocalisation_get_data self i))
                        / real (length (GlobalLocalisation_get_data self i)),
       longitude_deg = sum_list (map longitude_deg (GlobalLocalisation_get_data self i))
                        / real (length (GlobalLocalisation_get_data self i)),
       altitude_m = sum_list (map altitude_m (GlobalLocalisation_get_data self i))
                        / real (length (GlobalLocalisation_get_data self i)),
       latitude_uncertainty_deg = 1 / 1000000,
       longitude_uncertainty_deg = 1 / 1000000,
       altitude_uncertainty_m = 10\<rparr>)"
  by (simp add: GlobalLocalisation_localise_def Let_def geodetic_sum_eq truediv_pos)

lemma cartesian_localise_nonempty:
  "CartesianLocalisation_get_data self i \<noteq> [] \<Longrightarrow>
   CartesianLocalisation_localise self i =
     Inr (Some \<lparr>CartesianLandmark.identifier = i,
       x_m = sum_list (map x_m (CartesianLocalisation_get_data self i))
               / real (length (CartesianLocalisation_get_data self i)),
       y_m = sum_list (map y_m (CartesianLocalisation_get_data self i))
               / real (length (CartesianLocalisation_get_data self i)),
       z_m = sum_list (map z_m (CartesianLocalisation_get_data self i))
               / real (length (CartesianLocalisation_get_data self i)),
       uncertainty_m = 1 / 10\<rparr>)"
  by (simp add: CartesianLocalisation_localise_def Let_def cartesian_sum_eq truediv_pos)

lemma geodetic_localise_empty:
  "GlobalLocalisation_get_data self i = [] \<Longrightarrow> GlobalLocalisation_localise self i = Inr None"
  by (simp add: GlobalLocalisation_localise_def)

lemma cartesian_localise_empty:
  "CartesianLocalisation_get_data self i = [] \<Longrightarrow>
   CartesianLocalisation_localise self i = Inr None"
  by (simp add: CartesianLocalisation_localise_def)

lemma geodetic_localise_total: "\<exists>r. GlobalLocalisation_localise g i = Inr r"
  by (cases "GlobalLocalisation_get_data g i = []")
     (simp_all add: geodetic_localise_empty geodetic_localise_nonempty)

lemma cartesian_localise_total: "\<exists>r. CartesianLocalisation_localise c i = Inr r"
  by (cases "CartesianLocalisation_get_data c i = []")
     (simp_all add: cartesian_localise_empty cartesian_localise_nonempty)

lemma multiple_sum_eq:
  "multiple_sum md5 self ws (a, b, c) =
     Inr (a + sum_list (map latitude_deg
            (List.map_filter (\<lambda>(ssid, mac).
               case localise_wifi md5 self ssid mac of Inl e \<Rightarrow> None | Inr r \<Rightarrow> r) ws)),
          b + sum_list (map longitude_deg
            (List.map_filter (\<lambda>(ssid, mac).
               case localise_wifi md5 self ssid mac of Inl e \<Rightarrow> None | Inr r \<Rightarrow> r) ws)),
          c + sum_list (map altitude_m
            (List.map_filter (\<lambda>(ssid, mac).
               case localise_wifi md5 self ssid mac of Inl e \<Rightarrow> None | Inr r \<Rightarrow> r) ws)))"
proof (induction ws arbitrary: a b c)
  case Nil
  then show ?case by (simp add: List.map_filter_simps)
next
  case (Cons w ws)
  obtain ssid mac where w: "w = (ssid, mac)" by (cases w)
  from geodetic_localise_total obtain r where
    r: "localise_wifi md5 self ssid mac = Inr r"
    unfolding localise_wifi_def by blast
  show ?case
  proof (cases r)
    case None
    with r w Cons.IH show ?thesis by (simp add: List.map_filter_simps)
  next
    case (Some l)
    with r w Cons.IH show ?thesis by (simp add: List.map_filter_simps add.assoc)
  qed
qed

lemma localise_multiple_eq:
  "localise_multiple md5 self ws =
     (if ws = [] then Inl ZeroDivisionError
      else Inr
        (sum_list (map latitude_deg
            (List.map_filter (\<lambda>(ssid, mac).
               case localise_wifi md5 self ssid mac of Inl e \<Rightarrow> None | Inr r \<Rightarrow> r) ws))
           / real (length ws),
         sum_list (map longitude_deg
            (List.map_filter (\<lambda>(ssid, mac).
               case localise_wifi md5 self ssid mac of Inl e \<Rightarrow> None | Inr r \<Rightarrow> r) ws))
           / real (length ws),
         sum_list (map altitude_m
            (List.map_filter (\<lambda>(ssid, mac).
               case localise_wifi md5 self ssid mac of Inl e \<Rightarrow> None | Inr r \<Rightarrow> r) ws))
           / real (length ws)))"
  by (simp add: localise_multiple_def multiple_sum_eq truediv_def)

subsection \<open>Concrete scenarios\<close>


lemma hash_wifi_ab: "hash_wifi md5 ''a'' ''b'' = md5 ''ab''"
  by (simp add: hash_wifi_def)

lemma hash_wifi_cd: "hash_wifi md5 ''c'' ''d'' = md5 ''cd''"
  by (simp add: hash_wifi_def)

lemma wifi_get:
  "GlobalLocalisation_get_data
     (add_wifi_data md5 (GlobalLocalisation_init sv fv) ''a'' ''b'' 2 4 6) k =
   (if k = md5 ''ab'' then
    [\<lparr>GeodeticLandmark.identifier = md5 ''ab'', latitude_deg = 2, longitude_deg = 4,
      altitude_m = 6, latitude_uncertainty_deg = 1 / 1000000,
      longitude_uncertainty_deg = 1 / 1000000, altitude_uncertainty_m = 10\<rparr>] else [])"
  by (simp add: add_wifi_data_def hash_wifi_ab GlobalLocalisation_get_data_def
      GlobalLocalisation_add_data_def
      GlobalLocalisation_init_def put_get put_data_model init_data_model
      geodetic_class_identifier get_init)

lemma scenario_A_get:
  "GlobalLocalisation_get_data scenario_A k =
     (if k = ''A'' then [geo ''A'' 0 0 0, geo ''A'' 2 4 6] else [])"
  by (simp add: scenario_A_def geo_def GlobalLocalisation_get_data_def
      GlobalLocalisation_add_data_def
      GlobalLocalisation_init_def put_get put_data_model init_data_model
      geodetic_class_identifier get_init)

lemma scenario_B_get:
  "CartesianLocalisation_get_data scenario_B k =
     (if k = ''B'' then
       [\<lparr>CartesianLandmark.identifier = ''B'', x_m = 0, y_m = 0, z_m = 0, uncertainty_m = 1 / 10\<rparr>,
        \<lparr>CartesianLandmark.identifier = ''B'', x_m = 2, y_m = 4, z_m = 6, uncertainty_m = 5\<rparr>]
      else [])"
  by (simp add: scenario_B_def CartesianLocalisation_get_data_def
      CartesianLocalisation_add_data_def
      CartesianLocalisation_init_def put_get put_data_model init_data_model
      cartesian_class_identifier get_init)


lemma str_strict_accepts: "str_strict (JStr s) = Some s"
  by (simp add: str_strict_def)

lemma float_strict_accepts: "float_strict (JFloat x) = Some x"
  by (simp add: float_strict_def)



lemma scenario_B_model:
  "data_model (CartesianLocalisation.store scenario_B) =
     CartesianLandmark_class str_strict float_strict"
  by (simp add: scenario_B_def CartesianLocalisation_add_data_def
      CartesianLocalisation_init_def put_data_model init_data_model)

lemma scenario_A_model:
  "data_model (GlobalLocalisation.store scenario_A) =
     GeodeticLandmark_class str_strict float_strict"
  by (simp add: scenario_A_def GlobalLocalisation_add_data_def
      GlobalLocalisation_init_def put_data_model init_data_model)

lemma scenario_len:
  "LandmarkStore_len (GlobalLocalisation.store scenario_A) = 1"
  "LandmarkStore_len (CartesianLocalisation.store scenario_B) = 1"
  by (simp_all add: scenario_A_def scenario_B_def GlobalLocalisation_add_data_def
      GlobalLocalisation_init_def CartesianLocalisation_add_data_def
      CartesianLocalisation_init_def put_len put_keys keys_init len_init put_data_model
      init_data_model geodetic_class_identifier cartesian_class_identifier)




section \<open>The claims\<close>

subsection \<open>Mean of the stored records\<close>



subsection \<open>Aggregation over several landmarks\<close>

text \<open>
  Claim C2. \<open>localise_multiple\<close> looks each pair up with \<open>localise\<close> and leaves
  out of the sums the pairs that do not resolve, but it divides by the number of all
  pairs given (\<open>localise_multiple_eq\<close>). With one record \<open>(2, 4, 6)\<close> stored for the
  pair \<open>(a, b)\<close> and nothing stored for \<open>(c, d)\<close>, whose hash differs, the result for
  the two pairs is \<open>(1, 2, 3)\<close>, not the average \<open>(2, 4, 6)\<close> over the one landmark
  that resolved.
\<close>

theorem localise_multiple_partial:
  "md5 ''cd'' \<noteq> md5 ''ab'' \<Longrightarrow>
   localise_multiple md5
     (add_wifi_data md5 (GlobalLocalisation_init sv fv) ''a'' ''b'' 2 4 6)
     [(''a'', ''b''), (''c'', ''d'')] = Inr (1, 2, 3)
   \<and> localise_wifi md5
     (add_wifi_data md5 (GlobalLocalisation_init sv fv) ''a'' ''b'' 2 4 6) ''a'' ''b'' =
     Inr (Some \<lparr>GeodeticLandmark.identifier = md5 ''ab'', latitude_deg = 2, longitude_deg = 4,
      altitude_m = 6, latitude_uncertainty_deg = 1 / 1000000,
      longitude_uncertainty_deg = 1 / 1000000, altitude_uncertainty_m = 10\<rparr>)
   \<and> localise_wifi md5
     (add_wifi_data md5 (GlobalLocalisation_init sv fv) ''a'' ''b'' 2 4 6) ''c'' ''d'' =
     Inr None"
  by (simp add: localise_multiple_def localise_wifi_def hash_wifi_ab hash_wifi_cd
      GlobalLocalisation_localise_def Let_def wifi_get truediv_def)

theorem localise_multiple_partial_witness:
  "(\<lambda>s. s) ''cd'' \<noteq> (\<lambda>s. s) ''ab'' \<and>
   localise_multiple (\<lambda>s. s)
     (add_wifi_data (\<lambda>s. s) (GlobalLocalisation_init str_strict float_strict) ''a'' ''b'' 2 4 6)
     [(''a'', ''b''), (''c'', ''d'')] = Inr (1, 2, 3)"
  using localise_multiple_partial [of "\<lambda>s. s" str_strict float_strict] by simp

subsection \<open>Division by zero\<close>

text \<open>
  Claim C3. \<open>localise\<close> never raises, in either engine: it returns \<open>None\<close> before
  it divides when no record is stored, and divides by a positive count otherwise. But
  \<open>localise_multiple\<close> has no such guard: on the empty sequence of pairs it divides by
  \<open>len(wifi_tuple) = 0\<close> and raises \<open>ZeroDivisionError\<close>.
\<close>

theorem localise_multiple_empty:
  "(\<exists>r. GlobalLocalisation_localise g i = Inr r)
   \<and> (\<exists>r. CartesianLocalisation_localise c i = Inr r)
   \<and> localise_multiple md5 self [] = Inl ZeroDivisionError"
  by (simp add: geodetic_localise_total cartesian_localise_total localise_multiple_eq)

subsection \<open>Appending a record\<close>

text \<open>
  Claim C4. \<open>put(record)\<close> appends the record to the sequence keyed by
  \<open>record.identifier\<close>: afterwards the store maps that identifier to the sequence it
  gave before (\<open>get\<close>, empty for an absent identifier) with the record added at the end,
  so a new identifier gets a one-element sequence and an existing one keeps its order.
  The flag returned is true exactly when the identifier was a key of the store before
  the call, and the identifier is a key afterwards.
\<close>

theorem put_appends:
  "DAList.lookup (storage (fst (LandmarkStore_put self datum)))
       (model_identifier (data_model self) datum) =
     Some (LandmarkStore_get self (model_identifier (data_model self) datum) @ [datum])
   \<and> LandmarkStore_get (fst (LandmarkStore_put self datum))
       (model_identifier (data_model self) datum) =
     LandmarkStore_get self (model_identifier (data_model self) datum) @ [datum]
   \<and> snd (LandmarkStore_put self datum) =
       (model_identifier (data_model self) datum \<in> keys (storage self))
   \<and> keys (storage (fst (LandmarkStore_put self datum))) =
       insert (model_identifier (data_model self) datum) (keys (storage self))"
proof (cases "DAList.lookup (storage self) (model_identifier (data_model self) datum)")
  case None
  then have "model_identifier (data_model self) datum \<notin> keys (storage self)"
    by (simp add: lookup_None_iff)
  with None show ?thesis
    by (simp add: put_None LandmarkStore_get_def lookup_update keys_update)
next
  case (Some t)
  then have "model_identifier (data_model self) datum \<in> keys (storage self)"
    using lookup_Some_iff by fastforce
  with Some show ?thesis
    by (simp add: put_Some LandmarkStore_get_def lookup_update keys_update)
qed

subsection \<open>Saving and loading back\<close>

text \<open>
  Claim C5. Round trip: for every store of either variant, \<open>save(path)\<close> followed
  by \<open>load(path)\<close> on a fresh store of the same variant succeeds and gives back the
  saved store itself (the same identifiers, each with the same records in the same
  order), and returns its number of identifiers. The validators are taken to accept
  what \<open>.dict()\<close> emits: a \<open>str\<close> for the identifier and a \<open>float\<close> for every
  number.
\<close>

theorem save_load_roundtrip:
  assumes "\<And>s. sv (JStr s) = Some s" and "\<And>x. fv (JFloat x) = Some x"
  shows "(data_model gs = GeodeticLandmark_class sv fv \<longrightarrow>
            LandmarkStore_load (LandmarkStore_init (GeodeticLandmark_class sv fv)) p
                (LandmarkStore_save gs p fs) =
              Inr (gs, LandmarkStore_len gs))
         \<and> (data_model cs = CartesianLandmark_class sv fv \<longrightarrow>
            LandmarkStore_load (LandmarkStore_init (CartesianLandmark_class sv fv)) p
                (LandmarkStore_save cs p fs) =
              Inr (cs, LandmarkStore_len cs))"
proof (intro conjI impI)
  assume dm: "data_model gs = GeodeticLandmark_class sv fv"
  have "\<And>m. model_init (data_model gs) (model_dict (data_model gs) m) = Inr m"
    by (simp add: dm GeodeticLandmark_class_def geodetic_roundtrip assms)
  from save_load_generic [OF this, of "LandmarkStore_init (GeodeticLandmark_class sv fv)" p fs]
  show "LandmarkStore_load (LandmarkStore_init (GeodeticLandmark_class sv fv)) p
                (LandmarkStore_save gs p fs) = Inr (gs, LandmarkStore_len gs)"
    by (simp add: init_data_model dm LandmarkStore_init_def
        LandmarkStore.equality)
next
  assume dm: "data_model cs = CartesianLandmark_class sv fv"
  have "\<And>m. model_init (data_model cs) (model_dict (data_model cs) m) = Inr m"
    by (simp add: dm CartesianLandmark_class_def cartesian_roundtrip assms)
  from save_load_generic [OF this, of "LandmarkStore_init (CartesianLandmark_class sv fv)" p fs]
  show "LandmarkStore_load (LandmarkStore_init (CartesianLandmark_class sv fv)) p
                (LandmarkStore_save cs p fs) = Inr (cs, LandmarkStore_len cs)"
    by (simp add: init_data_model dm LandmarkStore_init_def
        LandmarkStore.equality)
qed

theorem save_load_roundtrip_witness:
  "(\<forall>s. str_strict (JStr s) = Some s) \<and> (\<forall>x. float_strict (JFloat x) = Some x)
   \<and> data_model (GlobalLocalisation.store scenario_A) =
       GeodeticLandmark_class str_strict float_strict
   \<and> LandmarkStore_load (LandmarkStore_init (GeodeticLandmark_class str_strict float_strict))
       ''wifi_landmarks.json''
       (LandmarkStore_save (GlobalLocalisation.store scenario_A) ''wifi_landmarks.json''
          Map.empty) =
     Inr (GlobalLocalisation.store scenario_A, 1)
   \<and> data_model (CartesianLocalisation.store scenario_B) =
       CartesianLandmark_class str_strict float_strict
   \<and> LandmarkStore_load (LandmarkStore_init (CartesianLandmark_class str_strict float_strict))
       ''wifi_landmarks.json''
       (LandmarkStore_save (CartesianLocalisation.store scenario_B) ''wifi_landmarks.json''
          Map.empty) =
     Inr (CartesianLocalisation.store scenario_B, 1)"
  using save_load_roundtrip [of str_strict float_strict "GlobalLocalisation.store scenario_A"
      "''wifi_landmarks.json''" Map.empty "CartesianLocalisation.store scenario_B",
      OF str_strict_accepts float_strict_accepts]
  by (simp add: str_strict_accepts float_strict_accepts scenario_A_model scenario_B_model
      scenario_len)

subsection \<open>Loading a file\<close>




subsection \<open>Unknown identifiers\<close>

text \<open>
  Claim C7. Not-found is not an error: \<open>get\<close> of an identifier that is no key of
  the store is the empty sequence, on a fresh store for every identifier; \<open>localise\<close> of
  an identifier with no stored record returns \<open>None\<close> without raising, on a fresh engine
  for every identifier, in both engines.
\<close>

theorem not_found_is_empty:
  "(i \<notin> keys (storage self) \<longrightarrow> LandmarkStore_get self i = [])
   \<and> LandmarkStore_get (LandmarkStore_init dm) i = []
   \<and> (GlobalLocalisation_get_data g i = [] \<longrightarrow> GlobalLocalisation_localise g i = Inr None)
   \<and> (CartesianLocalisation_get_data c i = [] \<longrightarrow>
        CartesianLocalisation_localise c i = Inr None)
   \<and> GlobalLocalisation_localise (GlobalLocalisation_init sv fv) i = Inr None
   \<and> CartesianLocalisation_localise (CartesianLocalisation_init sv fv) i = Inr None"
  by (simp add: get_absent get_init geodetic_localise_empty cartesian_localise_empty
      GlobalLocalisation_get_data_def CartesianLocalisation_get_data_def
      GlobalLocalisation_init_def CartesianLocalisation_init_def)

theorem not_found_is_empty_witness:
  "''B'' \<notin> keys (storage (fst (LandmarkStore_put geodetic_store (geo ''A'' 0 0 0))))
   \<and> LandmarkStore_get (fst (LandmarkStore_put geodetic_store (geo ''A'' 0 0 0))) ''B'' = []
   \<and> GlobalLocalisation_get_data scenario_A ''B'' = []
   \<and> GlobalLocalisation_localise scenario_A ''B'' = Inr None
   \<and> CartesianLocalisation_get_data scenario_B ''A'' = []
   \<and> CartesianLocalisation_localise scenario_B ''A'' = Inr None"
  using not_found_is_empty [of "''B''" "fst (LandmarkStore_put geodetic_store (geo ''A'' 0 0 0))"
      "data_model geodetic_store" scenario_A scenario_B str_strict float_strict]
    not_found_is_empty [of "''A''" "fst (LandmarkStore_put geodetic_store (geo ''A'' 0 0 0))"
      "data_model geodetic_store" scenario_A scenario_B str_strict float_strict]
  by (simp add: put_keys keys_init geodetic_store_def init_data_model
      geodetic_class_identifier geo_def scenario_A_get scenario_B_get)

subsection \<open>Size of the store\<close>

text \<open>
  Claim C8. The length of the store, and of both engines, is the number of distinct
  identifiers stored. A fresh store has length 0; putting a record under an identifier
  already stored leaves the length as it is, and putting one under a new identifier
  adds one.
\<close>

theorem len_counts_identifiers:
  "LandmarkStore_len self = card (keys (storage self))
   \<and> GlobalLocalisation_len g = card (keys (storage (GlobalLocalisation.store g)))
   \<and> CartesianLocalisation_len c = card (keys (storage (CartesianLocalisation.store c)))
   \<and> LandmarkStore_len (LandmarkStore_init dm) = 0
   \<and> (model_identifier (data_model self) datum \<in> keys (storage self) \<longrightarrow>
        LandmarkStore_len (fst (LandmarkStore_put self datum)) = LandmarkStore_len self)
   \<and> (model_identifier (data_model self) datum \<notin> keys (storage self) \<longrightarrow>
        LandmarkStore_len (fst (LandmarkStore_put self datum)) = LandmarkStore_len self + 1)"
  by (simp add: put_len len_init GlobalLocalisation_len_def CartesianLocalisation_len_def)
     (simp add: LandmarkStore_len_def dict_len_card)

theorem len_counts_identifiers_witness:
  "model_identifier (data_model (fst (LandmarkStore_put geodetic_store (geo ''A'' 0 0 0))))
       (geo ''A'' 2 4 6)
     \<in> keys (storage (fst (LandmarkStore_put geodetic_store (geo ''A'' 0 0 0))))
   \<and> LandmarkStore_len (fst (LandmarkStore_put geodetic_store (geo ''A'' 0 0 0))) = 1
   \<and> LandmarkStore_len
       (fst (LandmarkStore_put (fst (LandmarkStore_put geodetic_store (geo ''A'' 0 0 0)))
          (geo ''A'' 2 4 6))) = 1
   \<and> model_identifier (data_model (fst (LandmarkStore_put geodetic_store (geo ''A'' 0 0 0))))
       (geo ''B'' 2 4 6)
     \<notin> keys (storage (fst (LandmarkStore_put geodetic_store (geo ''A'' 0 0 0))))
   \<and> LandmarkStore_len
       (fst (LandmarkStore_put (fst (LandmarkStore_put geodetic_store (geo ''A'' 0 0 0)))
          (geo ''B'' 2 4 6))) = 2"
  using len_counts_identifiers
      [of "fst (LandmarkStore_put geodetic_store (geo ''A'' 0 0 0))" scenario_A scenario_B
        "data_model geodetic_store" "geo ''A'' 2 4 6"]
    len_counts_identifiers
      [of "fst (LandmarkStore_put geodetic_store (geo ''A'' 0 0 0))" scenario_A scenario_B
        "data_model geodetic_store" "geo ''B'' 2 4 6"]
    len_counts_identifiers [of geodetic_store scenario_A scenario_B
        "data_model geodetic_store" "geo ''A'' 0 0 0"]
  by (simp add: put_keys keys_init geodetic_store_def init_data_model put_data_model
      geodetic_class_identifier geo_def len_init)

subsection \<open>Identifier of the estimate\<close>

text \<open>
  Claim C9. Whenever \<open>localise(identifier)\<close> returns a record, which it does as
  soon as one record is stored under the identifier, the record's identifier is the
  queried one, in the geodetic and in the Cartesian engine.
\<close>

theorem localise_keeps_identifier:
  "(GlobalLocalisation_localise g i = Inr (Some r) \<longrightarrow> GeodeticLandmark.identifier r = i)
   \<and> (CartesianLocalisation_localise c j = Inr (Some q) \<longrightarrow>
        CartesianLandmark.identifier q = j)
   \<and> (GlobalLocalisation_get_data g i \<noteq> [] \<longrightarrow>
        (\<exists>r. GlobalLocalisation_localise g i = Inr (Some r)))
   \<and> (CartesianLocalisation_get_data c j \<noteq> [] \<longrightarrow>
        (\<exists>q. CartesianLocalisation_localise c j = Inr (Some q)))"
proof (intro conjI impI)
  assume a: "GlobalLocalisation_localise g i = Inr (Some r)"
  then have "GlobalLocalisation_get_data g i \<noteq> []"
    by (auto simp: geodetic_localise_empty)
  from geodetic_localise_nonempty [OF this] a show "GeodeticLandmark.identifier r = i"
    by auto
next
  assume a: "CartesianLocalisation_localise c j = Inr (Some q)"
  then have "CartesianLocalisation_get_data c j \<noteq> []"
    by (auto simp: cartesian_localise_empty)
  from cartesian_localise_nonempty [OF this] a show "CartesianLandmark.identifier q = j"
    by auto
qed (simp_all add: geodetic_localise_nonempty cartesian_localise_nonempty)

theorem localise_keeps_identifier_witness:
  "GlobalLocalisation_localise scenario_A ''A'' = Inr (Some (geo ''A'' 1 2 3))
   \<and> GeodeticLandmark.identifier (geo ''A'' 1 2 3) = ''A''
   \<and> CartesianLocalisation_get_data scenario_B ''B'' \<noteq> []
   \<and> (\<exists>q. CartesianLocalisation_localise scenario_B ''B'' = Inr (Some q)
          \<and> CartesianLandmark.identifier q = ''B'')"
  using localise_keeps_identifier [of scenario_A "''A''" "geo ''A'' 1 2 3" scenario_B "''B''"]
  by (auto simp add: scenario_A_get scenario_B_get geo_def geodetic_localise_nonempty)

subsection \<open>Frame of the operations\<close>



end
